theory Spec2Isabelle
  imports Main "HOL-Library.Word"
begin

unbundle bit_operations_syntax

section \<open>The wallet of the matching engine (types/wallet.go)\<close>

text \<open>
  The file \<^verbatim>\<open>types/wallet.go\<close> holds the \<^verbatim>\<open>Wallet\<close> struct, its two constructors, its
  persistence codec (\<^verbatim>\<open>GetBSON\<close>, \<^verbatim>\<open>SetBSON\<close>) and the signing operations
  (\<^verbatim>\<open>SignHash\<close>, \<^verbatim>\<open>SignOrder\<close>, \<^verbatim>\<open>SignTrade\<close>).

  Go values are modelled as follows.
  \<^item> \<^verbatim>\<open>byte\<close> is \<open>8 word\<close>; \<^verbatim>\<open>[]byte\<close>, \<^verbatim>\<open>common.Hash\<close> (\<^verbatim>\<open>[32]byte\<close>) and
    \<^verbatim>\<open>common.Address\<close> (\<^verbatim>\<open>[20]byte\<close>) are lists of bytes; the conversions into the
    two array types (\<open>BytesToHash\<close>, \<open>BytesToAddress\<close>) always give the right length.
  \<^item> \<^verbatim>\<open>string\<close> is \<open>string\<close>, one \<open>char\<close> per byte; \<^verbatim>\<open>bson.ObjectId\<close> is a Go string.
  \<^item> \<^verbatim>\<open>*big.Int\<close> is \<open>int\<close>.
  \<^item> A pointer that may be nil (\<^verbatim>\<open>*ecdsa.PrivateKey\<close>, \<^verbatim>\<open>*Signature\<close>) is an \<open>option\<close>.
  \<^item> A Go \<^verbatim>\<open>error\<close> result is an \<open>error option\<close> (\<open>None\<close> is \<^verbatim>\<open>nil\<close>) next to the value,
    or a sum \<open>error + 'a\<close> for a library function that returns either one or the other.
  \<^item> A run-time panic is the left summand of \<open>panic + 'a\<close>.
  \<^item> A method with a pointer receiver that assigns to the receiver's fields takes the
    receiver and returns it updated.
  \<^item> \<^verbatim>\<open>log.Print\<close> writes to the process logger and changes no value of the program;
    it is left out.

  The cryptographic primitives of go-ethereum (the Keccak-256 sponge, scalar
  multiplication on secp256k1, ECDSA signing, key generation, the derivation of an
  address from a public key) and the BSON unmarshaller are parameters of the
  functions that call them. The byte-level library functions that decide what the
  codec does (encoding/hex, \<^verbatim>\<open>big.Int.Bytes\<close>, \<^verbatim>\<open>common.FromHex\<close>,
  \<^verbatim>\<open>common.BytesToAddress\<close>, the checks of \<^verbatim>\<open>crypto.HexToECDSA\<close>) are written out.
\<close>

subsection \<open>Bytes, errors and panics\<close>

type_synonym byte = "8 word"

definition byte_of_char :: "char \<Rightarrow> byte" where
  "byte_of_char c = of_nat (of_char c)"

definition char_of_byte :: "byte \<Rightarrow> char" where
  "char_of_byte b = char_of (unat b)"

text \<open>\<^verbatim>\<open>[]byte(s)\<close> for a Go string \<open>s\<close>.\<close>

definition bytes_of_string :: "string \<Rightarrow> byte list" where
  "bytes_of_string s = map byte_of_char s"

text \<open>
  The errors of the library functions modelled here, by their message, and
  \<open>ErrExternal\<close> for an error produced by one of the parameters.
\<close>

datatype error =
    ErrInvalidByte char     \<comment> \<open>encoding/hex: \<^verbatim>\<open>InvalidByteError\<close>\<close>
  | ErrLength               \<comment> \<open>encoding/hex: \<^verbatim>\<open>ErrLength\<close>, odd length hex string\<close>
  | ErrInvalidHexString     \<comment> \<open>crypto: "invalid hex string"\<close>
  | ErrInvalidLength        \<comment> \<open>crypto: "invalid length, need 256 bits"\<close>
  | ErrKeyTooLarge          \<comment> \<open>crypto: "invalid private key, >=N"\<close>
  | ErrKeyZeroOrNegative    \<comment> \<open>crypto: "invalid private key, zero or negative"\<close>
  | ErrInvalidPrivateKey    \<comment> \<open>crypto: "invalid private key"\<close>
  | ErrHashLength nat       \<comment> \<open>crypto: "hash is required to be exactly 32 bytes"\<close>
  | ErrExternal string

datatype panic =
    NilPointerDereference
  | SliceBoundsOutOfRange
  | IndexOutOfRange

subsection \<open>encoding/hex\<close>

text \<open>
  \<^verbatim>\<open>
  const hextable = "0123456789abcdef"

  func Encode(dst, src []byte) int {
      for i, v := range src {
          dst[i*2] = hextable[v>>4]
          dst[i*2+1] = hextable[v&0x0f]
      }
      return len(src) * 2
  }
  \<close>
  \<^verbatim>\<open>EncodeToString\<close> encodes into a fresh buffer of \<^verbatim>\<open>len(src) * 2\<close> bytes.
\<close>

definition hextable :: string where
  "hextable = ''0123456789abcdef''"

fun EncodeToString :: "byte list \<Rightarrow> string" where
  "EncodeToString [] = []"
| "EncodeToString (v # src) =
     hextable ! unat (drop_bit 4 v) # hextable ! unat (v AND 0x0f) # EncodeToString src"

text \<open>
  \<^verbatim>\<open>
  func fromHexChar(c byte) (byte, bool) {
      switch {
      case '0' <= c && c <= '9':
          return c - '0', true
      case 'a' <= c && c <= 'f':
          return c - 'a' + 10, true
      case 'A' <= c && c <= 'F':
          return c - 'A' + 10, true
      }
      return 0, false
  }
  \<close>
\<close>

definition fromHexChar :: "char \<Rightarrow> byte option" where
  "fromHexChar c =
     (let n = (of_char c :: nat) in
      if 48 \<le> n \<and> n \<le> 57 then Some (of_nat (n - 48))
      else if 97 \<le> n \<and> n \<le> 102 then Some (of_nat (n - 97 + 10))
      else if 65 \<le> n \<and> n \<le> 70 then Some (of_nat (n - 65 + 10))
      else None)"

text \<open>
  \<^verbatim>\<open>
  func Decode(dst, src []byte) (int, error) {
      i, j := 0, 1
      for ; j < len(src); j += 2 {
          a, ok := fromHexChar(src[j-1])
          if !ok { return i, InvalidByteError(src[j-1]) }
          b, ok := fromHexChar(src[j])
          if !ok { return i, InvalidByteError(src[j]) }
          dst[i] = (a << 4) | b
          i++
      }
      if len(src)%2 == 1 {
          if _, ok := fromHexChar(src[j-1]); !ok {
              return i, InvalidByteError(src[j-1])
          }
          return i, ErrLength
      }
      return i, nil
  }

  func DecodeString(s string) ([]byte, error) {
      src := []byte(s)
      n, err := Decode(src, src)
      return src[:n], err
  }
  \<close>
  The result is the bytes decoded before the error, and the error.
\<close>

fun DecodeString :: "string \<Rightarrow> byte list \<times> error option" where
  "DecodeString [] = ([], None)"
| "DecodeString [c] =
     (case fromHexChar c of
        None \<Rightarrow> ([], Some (ErrInvalidByte c))
      | Some a \<Rightarrow> ([], Some ErrLength))"
| "DecodeString (c1 # c2 # s) =
     (case fromHexChar c1 of
        None \<Rightarrow> ([], Some (ErrInvalidByte c1))
      | Some a \<Rightarrow>
          (case fromHexChar c2 of
             None \<Rightarrow> ([], Some (ErrInvalidByte c2))
           | Some b \<Rightarrow>
               (case DecodeString s of
                  (bs, err) \<Rightarrow> ((push_bit 4 a OR b) # bs, err))))"

subsection \<open>math/big\<close>

text \<open>
  \<^verbatim>\<open>func (x *Int) Bytes() []byte\<close>: the absolute value of \<open>x\<close> as a big-endian byte
  slice, with no leading zero byte (the empty slice for 0).
\<close>

fun nat_Bytes :: "nat \<Rightarrow> byte list" where
  "nat_Bytes n = (if n = 0 then [] else nat_Bytes (n div 256) @ [of_nat (n mod 256)])"

declare nat_Bytes.simps [simp del]

definition Bytes :: "int \<Rightarrow> byte list" where
  "Bytes x = nat_Bytes (nat \<bar>x\<bar>)"

text \<open>
  \<^verbatim>\<open>func (z *Int) SetBytes(buf []byte) *Int\<close>: \<open>buf\<close> read as a big-endian unsigned
  integer.
\<close>

definition SetBytes :: "byte list \<Rightarrow> int" where
  "SetBytes buf = foldl (\<lambda>acc b. acc * 256 + uint b) 0 buf"

subsection \<open>go-ethereum/common\<close>

text \<open>
  \<^verbatim>\<open>
  func Hex2Bytes(str string) []byte {
      h, _ := hex.DecodeString(str)
      return h
  }

  func FromHex(s string) []byte {
      if len(s) > 1 {
          if s[0:2] == "0x" || s[0:2] == "0X" {
              s = s[2:]
          }
      }
      if len(s)%2 == 1 {
          s = "0" + s
      }
      return Hex2Bytes(s)
  }
  \<close>
\<close>

definition Hex2Bytes :: "string \<Rightarrow> byte list" where
  "Hex2Bytes str = fst (DecodeString str)"

definition FromHex :: "string \<Rightarrow> byte list" where
  "FromHex s =
     (let s1 = (if length s > 1 \<and> (take 2 s = ''0x'' \<or> take 2 s = ''0X'') then drop 2 s else s);
          s2 = (if length s1 mod 2 = 1 then ''0'' @ s1 else s1)
      in Hex2Bytes s2)"

text \<open>
  \<^verbatim>\<open>
  const AddressLength = 20

  func (a *Address) SetBytes(b []byte) {
      if len(b) > len(a) {
          b = b[len(b)-AddressLength:]
      }
      copy(a[AddressLength-len(b):], b)
  }

  func BytesToAddress(b []byte) Address {
      var a Address
      a.SetBytes(b)
      return a
  }

  func HexToAddress(s string) Address { return BytesToAddress(FromHex(s)) }
  \<close>
  \<^verbatim>\<open>Hash\<close> (\<^verbatim>\<open>HashLength = 32\<close>) has the same \<^verbatim>\<open>SetBytes\<close> and \<^verbatim>\<open>BytesToHash\<close>.
\<close>

definition SetBytes_array :: "nat \<Rightarrow> byte list \<Rightarrow> byte list" where
  "SetBytes_array len b =
     (let b1 = (if length b > len then drop (length b - len) b else b)
      in replicate (len - length b1) 0 @ b1)"

definition AddressLength :: nat where
  "AddressLength = 20"

definition HashLength :: nat where
  "HashLength = 32"

definition BytesToAddress :: "byte list \<Rightarrow> byte list" where
  "BytesToAddress b = SetBytes_array AddressLength b"

definition BytesToHash :: "byte list \<Rightarrow> byte list" where
  "BytesToHash b = SetBytes_array HashLength b"

definition HexToAddress :: "string \<Rightarrow> byte list" where
  "HexToAddress s = BytesToAddress (FromHex s)"

subsection \<open>go-ethereum/crypto: Keccak-256\<close>

text \<open>
  The sponge is the parameter \<open>keccak\<close>, from the absorbed bytes to the 256-bit
  digest. \<^verbatim>\<open>crypto.Keccak256(data ...[]byte)\<close> writes its arguments into one sponge in
  order and returns the 32 bytes of the digest:
  \<^verbatim>\<open>
  func Keccak256(data ...[]byte) []byte {
      d := sha3.NewKeccak256()
      for _, b := range data {
          d.Write(b)
      }
      return d.Sum(nil)
  }
  \<close>
\<close>

type_synonym keccak = "byte list \<Rightarrow> 256 word"

definition digest_bytes :: "256 word \<Rightarrow> byte list" where
  "digest_bytes h = map (\<lambda>i. ucast (drop_bit (8 * (31 - i)) h)) [0..<32]"

definition Keccak256 :: "keccak \<Rightarrow> byte list list \<Rightarrow> byte list" where
  "Keccak256 keccak data = digest_bytes (keccak (concat data))"

text \<open>
  \<^verbatim>\<open>
  func (a Address) Hex() string {
      unchecksummed := hex.EncodeToString(a[:])
      sha := sha3.NewKeccak256()
      sha.Write([]byte(unchecksummed))
      hash := sha.Sum(nil)

      result := []byte(unchecksummed)
      for i := 0; i < len(result); i++ {
          hashByte := hash[i/2]
          if i%2 == 0 {
              hashByte = hashByte >> 4
          } else {
              hashByte &= 0xf
          }
          if result[i] > '9' && hashByte > 7 {
              result[i] -= 32
          }
      }
      return "0x" + string(result)
  }
  \<close>
  An address has 20 bytes, so \<open>i div 2 < 20\<close> in the loop and the read of \<open>hash\<close>
  (32 bytes) is in range.
\<close>

definition checksum_char :: "byte list \<Rightarrow> nat \<Rightarrow> char \<Rightarrow> char" where
  "checksum_char hash i c =
     (let hashByte = hash ! (i div 2);
          hashByte = (if i mod 2 = 0 then drop_bit 4 hashByte else hashByte AND 0xf)
      in if byte_of_char c > 57 \<and> hashByte > 7 then char_of_byte (byte_of_char c - 32) else c)"

definition Hex :: "keccak \<Rightarrow> byte list \<Rightarrow> string" where
  "Hex keccak a =
     (let unchecksummed = EncodeToString a;
          hash = Keccak256 keccak [bytes_of_string unchecksummed]
      in ''0x'' @ map (\<lambda>i. checksum_char hash i (unchecksummed ! i)) [0..<length unchecksummed])"

subsection \<open>go-ethereum/crypto: keys\<close>

text \<open>
  \<^verbatim>\<open>ecdsa.PublicKey\<close> is the curve and the point \<open>(X, Y)\<close>; \<^verbatim>\<open>ecdsa.PrivateKey\<close> embeds
  the public key and adds the scalar \<open>D\<close>. The curve is always secp256k1 here.
\<close>

record PublicKey =
  X :: int
  Y :: int

record PrivateKey =
  PublicKey :: PublicKey
  D :: int

text \<open>The order of the group of secp256k1.\<close>

definition secp256k1N :: int where
  "secp256k1N = 0xFFFFFFFFFFFFFFFFFFFFFFFFFFFFFFFEBAAEDCE6AF48A03BBFD25E8CD0364141"

text \<open>
  \<^verbatim>\<open>
  func HexToECDSA(hexkey string) (*ecdsa.PrivateKey, error) {
      b, err := hex.DecodeString(hexkey)
      if err != nil {
          return nil, errors.New("invalid hex string")
      }
      return ToECDSA(b)
  }

  func toECDSA(d []byte, strict bool) (*ecdsa.PrivateKey, error) {
      priv := new(ecdsa.PrivateKey)
      priv.PublicKey.Curve = S256()
      if strict && 8*len(d) != priv.Params().BitSize {
          return nil, fmt.Errorf("invalid length, need %d bits", priv.Params().BitSize)
      }
      priv.D = new(big.Int).SetBytes(d)
      if priv.D.Cmp(secp256k1N) >= 0 {
          return nil, fmt.Errorf("invalid private key, >=N")
      }
      if priv.D.Sign() <= 0 {
          return nil, fmt.Errorf("invalid private key, zero or negative")
      }
      priv.PublicKey.X, priv.PublicKey.Y = priv.PublicKey.Curve.ScalarBaseMult(d)
      if priv.PublicKey.X == nil {
          return nil, errors.New("invalid private key")
      }
      return priv, nil
  }
  \<close>
  \<^verbatim>\<open>ToECDSA(d)\<close> is \<^verbatim>\<open>toECDSA(d, true)\<close>. The scalar multiplication of the base point
  is the parameter \<open>ScalarBaseMult\<close>; \<open>None\<close> is its nil result.
\<close>

type_synonym scalar_base_mult = "byte list \<Rightarrow> (int \<times> int) option"

definition ToECDSA :: "scalar_base_mult \<Rightarrow> byte list \<Rightarrow> error + PrivateKey" where
  "ToECDSA ScalarBaseMult d =
     (if 8 * length d \<noteq> 256 then Inl ErrInvalidLength
      else if SetBytes d \<ge> secp256k1N then Inl ErrKeyTooLarge
      else if SetBytes d \<le> 0 then Inl ErrKeyZeroOrNegative
      else (case ScalarBaseMult d of
              None \<Rightarrow> Inl ErrInvalidPrivateKey
            | Some (x, y) \<Rightarrow> Inr \<lparr>PublicKey = \<lparr>X = x, Y = y\<rparr>, D = SetBytes d\<rparr>))"

definition HexToECDSA :: "scalar_base_mult \<Rightarrow> string \<Rightarrow> error + PrivateKey" where
  "HexToECDSA ScalarBaseMult hexkey =
     (case DecodeString hexkey of
        (b, Some err) \<Rightarrow> Inl ErrInvalidHexString
      | (b, None) \<Rightarrow> ToECDSA ScalarBaseMult b)"

text \<open>
  \<^verbatim>\<open>
  func Sign(hash []byte, prv *ecdsa.PrivateKey) (sig []byte, err error) {
      if len(hash) != 32 {
          return nil, fmt.Errorf("hash is required to be exactly 32 bytes (%d)", len(hash))
      }
      seckey := math.PaddedBigBytes(prv.D, prv.Params().BitSize/8)
      defer zeroBytes(seckey)
      return secp256k1.Sign(hash, seckey)
  }
  \<close>
  The signing primitive \<^verbatim>\<open>secp256k1.Sign\<close> is the parameter \<open>ecdsa_sign\<close>, given the
  message and the key; reading \<^verbatim>\<open>prv.D\<close> through a nil pointer panics.
\<close>

type_synonym ecdsa_sign = "byte list \<Rightarrow> PrivateKey \<Rightarrow> error + byte list"

definition Sign :: "ecdsa_sign \<Rightarrow> byte list \<Rightarrow> PrivateKey option \<Rightarrow> panic + (error + byte list)" where
  "Sign ecdsa_sign hash prv =
     (if length hash \<noteq> 32 then Inr (Inl (ErrHashLength (length hash)))
      else (case prv of
              None \<Rightarrow> Inl NilPointerDereference
            | Some k \<Rightarrow> Inr (ecdsa_sign hash k)))"

text \<open>
  A Go call that returns \<^verbatim>\<open>(*T, error)\<close> gives the caller a pointer and an error: the
  pointer is nil when the error is not.
\<close>

definition go_pair :: "error + 'a \<Rightarrow> 'a option \<times> error option" where
  "go_pair r = (case r of Inl err \<Rightarrow> (None, Some err) | Inr v \<Rightarrow> (Some v, None))"

text \<open>
  \<^verbatim>\<open>crypto.GenerateKey()\<close> reads the system's random source. The pair it returns on
  one call is the parameter \<open>generated\<close> of \<open>NewWallet\<close>: \<open>(Some k, None)\<close> on success,
  \<open>(None, Some err)\<close> when the random source fails.

  \<^verbatim>\<open>crypto.PubkeyToAddress\<close> (the last 20 bytes of the Keccak-256 digest of the
  marshalled point) is the parameter \<open>PubkeyToAddress\<close>.
\<close>

type_synonym pubkey_to_address = "PublicKey \<Rightarrow> byte list"

subsection \<open>The types of the package\<close>

text \<open>
  Modelled from the spec: the struct \<^verbatim>\<open>Signature\<close> is declared in another file of the
  package. The spec gives it \<open>r\<close>, \<open>s\<close> (32-byte values) and \<open>v\<close> (a single byte); the
  code of \<^verbatim>\<open>SignHash\<close> fills \<open>R\<close> and \<open>S\<close> with \<^verbatim>\<open>common.Hash\<close> values and \<open>V\<close> with a byte.
\<close>

record Signature =
  V :: byte
  R :: "byte list"
  S :: "byte list"

text \<open>\<^verbatim>\<open>Signature{}\<close>, the zero value.\<close>

definition Signature_zero :: Signature where
  "Signature_zero = \<lparr>V = 0, R = replicate 32 0, S = replicate 32 0\<rparr>"

text \<open>
  \<^verbatim>\<open>
  type Wallet struct {
      ID         bson.ObjectId
      Address    common.Address
      PrivateKey *ecdsa.PrivateKey
      Admin      bool
      Operator   bool
  }
  \<close>
\<close>

record Wallet =
  ID :: string
  Address :: "byte list"
  PrivateKey :: "PrivateKey option"
  Admin :: bool
  Operator :: bool

text \<open>
  \<^verbatim>\<open>
  type WalletRecord struct {
      ID         bson.ObjectId `json:"id,omitempty" bson:"_id"`
      Address    string        `json:"address" bson:"address"`
      PrivateKey string        `json:"privateKey" bson:"privateKey"`
      Admin      bool          `json:"admin" bson:"admin"`
      Operator   bool          `json:"operator" bson:"operator"`
  }
  \<close>
  The fields carry the prefix \<open>r_\<close> to keep them apart from those of \<open>Wallet\<close>.
\<close>

record WalletRecord =
  r_ID :: string
  r_Address :: string
  r_PrivateKey :: string
  r_Admin :: bool
  r_Operator :: bool

text \<open>
  Modelled from the spec: the structs \<^verbatim>\<open>Order\<close> and \<^verbatim>\<open>Trade\<close> and their methods
  \<^verbatim>\<open>ComputeHash\<close> are declared in other files of the package. The spec gives a
  Signable a \<open>computeHash() -> 32-byte digest\<close> capability and mutable \<open>hash\<close> and
  \<open>signature\<close> fields; the code assigns a \<^verbatim>\<open>common.Hash\<close> to \<open>Hash\<close> and a
  \<^verbatim>\<open>*Signature\<close> to \<open>Signature\<close>. The other fields of each struct are the extension of
  the record, and \<^verbatim>\<open>ComputeHash\<close> is a parameter of the functions that call it.
\<close>

record Order =
  o_Hash :: "byte list"
  o_Signature :: "Signature option"

record Trade =
  t_Hash :: "byte list"
  t_Signature :: "Signature option"

subsection \<open>Key lifecycle\<close>

text \<open>
  \<^verbatim>\<open>
  func NewWallet() *Wallet {
      privateKey, _ := crypto.GenerateKey()
      address := crypto.PubkeyToAddress(privateKey.PublicKey)

      return &Wallet{
          Address:    address,
          PrivateKey: privateKey,
      }
  }
  \<close>
  The error of \<^verbatim>\<open>GenerateKey\<close> is discarded; \<^verbatim>\<open>privateKey.PublicKey\<close> reads through
  the pointer.
\<close>

definition NewWallet ::
  "PrivateKey option \<times> error option \<Rightarrow> pubkey_to_address \<Rightarrow> panic + Wallet" where
  "NewWallet generated PubkeyToAddress =
     (case generated of
        (privateKey, _) \<Rightarrow>
          (case privateKey of
             None \<Rightarrow> Inl NilPointerDereference
           | Some k \<Rightarrow>
               Inr \<lparr>ID = [], Address = PubkeyToAddress (PublicKey k),
                    PrivateKey = privateKey, Admin = False, Operator = False\<rparr>))"

text \<open>
  \<^verbatim>\<open>
  func NewWalletFromPrivateKey(key string) *Wallet {
      privateKey, err := crypto.HexToECDSA(key)
      if err != nil {
          log.Print(err)
      }

      return &Wallet{
          Address:    crypto.PubkeyToAddress(privateKey.PublicKey),
          PrivateKey: privateKey,
      }
  }
  \<close>
  The error is logged and the function goes on.
\<close>

definition NewWalletFromPrivateKey ::
  "scalar_base_mult \<Rightarrow> pubkey_to_address \<Rightarrow> string \<Rightarrow> panic + Wallet" where
  "NewWalletFromPrivateKey ScalarBaseMult PubkeyToAddress key =
     (case go_pair (HexToECDSA ScalarBaseMult key) of
        (privateKey, err) \<Rightarrow>
          (case privateKey of
             None \<Rightarrow> Inl NilPointerDereference
           | Some k \<Rightarrow>
               Inr \<lparr>ID = [], Address = PubkeyToAddress (PublicKey k),
                    PrivateKey = privateKey, Admin = False, Operator = False\<rparr>))"

text \<open>
  \<^verbatim>\<open>
  func (w *Wallet) GetAddress() string { return w.Address.Hex() }

  func (w *Wallet) GetPrivateKey() string {
      return hex.EncodeToString(w.PrivateKey.D.Bytes())
  }

  func (w *Wallet) Validate() error { return nil }
  \<close>
\<close>

definition GetAddress :: "keccak \<Rightarrow> Wallet \<Rightarrow> string" where
  "GetAddress keccak w = Hex keccak (Address w)"

definition GetPrivateKey :: "Wallet \<Rightarrow> panic + string" where
  "GetPrivateKey w =
     (case PrivateKey w of
        None \<Rightarrow> Inl NilPointerDereference
      | Some k \<Rightarrow> Inr (EncodeToString (Bytes (D k))))"

definition Validate :: "Wallet \<Rightarrow> error option" where
  "Validate w = None"

subsection \<open>Persistence codec\<close>

text \<open>
  \<^verbatim>\<open>
  func (w *Wallet) GetBSON() (interface{}, error) {
      return WalletRecord{
          ID:         w.ID,
          Address:    w.Address.Hex(),
          PrivateKey: hex.EncodeToString(w.PrivateKey.D.Bytes()),
          Admin:      w.Admin,
      }, nil
  }
  \<close>
  The literal names no \<^verbatim>\<open>Operator\<close>, which is then the zero value \<^verbatim>\<open>false\<close>.
\<close>

definition GetBSON :: "keccak \<Rightarrow> Wallet \<Rightarrow> panic + (WalletRecord \<times> error option)" where
  "GetBSON keccak w =
     (case PrivateKey w of
        None \<Rightarrow> Inl NilPointerDereference
      | Some k \<Rightarrow>
          Inr (\<lparr>r_ID = ID w,
                r_Address = Hex keccak (Address w),
                r_PrivateKey = EncodeToString (Bytes (D k)),
                r_Admin = Admin w,
                r_Operator = False\<rparr>, None))"

text \<open>
  \<^verbatim>\<open>
  func (w *Wallet) SetBSON(raw bson.Raw) error {
      decoded := &WalletRecord{}
      err := raw.Unmarshal(decoded)
      if err != nil {
          log.Print(err)
          return err
      }

      w.ID = decoded.ID
      w.Address = common.HexToAddress(decoded.Address)
      w.PrivateKey, err = crypto.HexToECDSA(decoded.PrivateKey)
      if err != nil {
          log.Print(err)
          return err
      }

      w.Admin = decoded.Admin
      w.Operator = decoded.Operator
      return nil
  }
  \<close>
  \<^verbatim>\<open>raw.Unmarshal\<close> is the parameter \<open>Unmarshal\<close>: the record it decodes the raw
  document to, or its error. The result is the wallet after the call and the error.
\<close>

definition SetBSON ::
  "('raw \<Rightarrow> error + WalletRecord) \<Rightarrow> scalar_base_mult \<Rightarrow> 'raw \<Rightarrow> Wallet \<Rightarrow> Wallet \<times> error option" where
  "SetBSON Unmarshal ScalarBaseMult raw w =
     (case Unmarshal raw of
        Inl err \<Rightarrow> (w, Some err)
      | Inr decoded \<Rightarrow>
          (let w1 = w\<lparr>ID := r_ID decoded\<rparr>;
               w2 = w1\<lparr>Address := HexToAddress (r_Address decoded)\<rparr>
           in case go_pair (HexToECDSA ScalarBaseMult (r_PrivateKey decoded)) of
                (privateKey, err) \<Rightarrow>
                  (let w3 = w2\<lparr>PrivateKey := privateKey\<rparr>
                   in case err of
                        Some e \<Rightarrow> (w3, Some e)
                      | None \<Rightarrow>
                          (w3\<lparr>Admin := r_Admin decoded, Operator := r_Operator decoded\<rparr>,
                           None))))"

subsection \<open>Signing\<close>

text \<open>The Go string literal \<^verbatim>\<open>"\x19Ethereum Signed Message:\n32"\<close>.\<close>

definition preamble :: string where
  "preamble = CHR 0x19 # ''Ethereum Signed Message:'' @ [CHR 0x0A] @ ''32''"

text \<open>
  \<^verbatim>\<open>
  func (w *Wallet) SignHash(h common.Hash) (*Signature, error) {
      message := crypto.Keccak256(
          []byte("\x19Ethereum Signed Message:\n32"),
          h.Bytes(),
      )

      sigBytes, err := crypto.Sign(message, w.PrivateKey)
      if err != nil {
          return &Signature{}, err
      }

      sig := &Signature{
          R: common.BytesToHash(sigBytes[0:32]),
          S: common.BytesToHash(sigBytes[32:64]),
          V: sigBytes[64] + 27,
      }

      return sig, nil
  }
  \<close>
  A slice expression or an index beyond the end of \<open>sigBytes\<close> panics. The pointer
  returned is never nil, so the result is the signature and the error.
\<close>

definition SignHash ::
  "keccak \<Rightarrow> ecdsa_sign \<Rightarrow> Wallet \<Rightarrow> byte list \<Rightarrow> panic + (Signature \<times> error option)" where
  "SignHash keccak ecdsa_sign w h =
     (let message = Keccak256 keccak [bytes_of_string preamble, h]
      in case Sign ecdsa_sign message (PrivateKey w) of
           Inl p \<Rightarrow> Inl p
         | Inr (Inl err) \<Rightarrow> Inr (Signature_zero, Some err)
         | Inr (Inr sigBytes) \<Rightarrow>
             if length sigBytes < 32 then Inl SliceBoundsOutOfRange
             else if length sigBytes < 64 then Inl SliceBoundsOutOfRange
             else if length sigBytes < 65 then Inl IndexOutOfRange
             else Inr (\<lparr>V = sigBytes ! 64 + 27,
                        R = BytesToHash (take 32 sigBytes),
                        S = BytesToHash (take (64 - 32) (drop 32 sigBytes))\<rparr>, None))"

text \<open>
  \<^verbatim>\<open>
  func (w *Wallet) SignTrade(t *Trade) error {
      hash := t.ComputeHash()

      sig, err := w.SignHash(hash)
      if err != nil {
          return err
      }

      t.Hash = hash
      t.Signature = sig
      return nil
  }

  func (w *Wallet) SignOrder(o *Order) error {
      hash := o.ComputeHash()
      sig, err := w.SignHash(hash)
      if err != nil {
          return err
      }

      o.Hash = hash
      o.Signature = sig
      return nil
  }
  \<close>
  The result is the trade (the order) after the call and the error.
\<close>

definition SignTrade ::
  "keccak \<Rightarrow> ecdsa_sign \<Rightarrow> ('a Trade_scheme \<Rightarrow> byte list) \<Rightarrow> Wallet \<Rightarrow> 'a Trade_scheme
     \<Rightarrow> panic + ('a Trade_scheme \<times> error option)" where
  "SignTrade keccak ecdsa_sign ComputeHash w t =
     (let hash = ComputeHash t
      in case SignHash keccak ecdsa_sign w hash of
           Inl p \<Rightarrow> Inl p
         | Inr (sig, Some err) \<Rightarrow> Inr (t, Some err)
         | Inr (sig, None) \<Rightarrow> Inr (t\<lparr>t_Hash := hash, t_Signature := Some sig\<rparr>, None))"

definition SignOrder ::
  "keccak \<Rightarrow> ecdsa_sign \<Rightarrow> ('a Order_scheme \<Rightarrow> byte list) \<Rightarrow> Wallet \<Rightarrow> 'a Order_scheme
     \<Rightarrow> panic + ('a Order_scheme \<times> error option)" where
  "SignOrder keccak ecdsa_sign ComputeHash w ord =
     (let hash = ComputeHash ord
      in case SignHash keccak ecdsa_sign w hash of
           Inl p \<Rightarrow> Inl p
         | Inr (sig, Some err) \<Rightarrow> Inr (ord, Some err)
         | Inr (sig, None) \<Rightarrow> Inr (ord\<lparr>o_Hash := hash, o_Signature := Some sig\<rparr>, None))"

section \<open>Properties of the library functions\<close>

subsection \<open>Fixed-size byte arrays\<close>

lemma length_digest_bytes: "length (digest_bytes h) = 32"
  by (simp add: digest_bytes_def)

lemma length_Keccak256: "length (Keccak256 keccak data) = 32"
  by (simp add: Keccak256_def length_digest_bytes)

lemma length_SetBytes_array: "length (SetBytes_array len b) = len"
  by (simp add: SetBytes_array_def Let_def)

lemma SetBytes_array_exact: "length b = len \<Longrightarrow> SetBytes_array len b = b"
  by (simp add: SetBytes_array_def)

lemma length_BytesToHash: "length (BytesToHash b) = 32"
  by (simp add: BytesToHash_def HashLength_def length_SetBytes_array)

lemma length_BytesToAddress: "length (BytesToAddress b) = 20"
  by (simp add: BytesToAddress_def AddressLength_def length_SetBytes_array)

lemma length_HexToAddress: "length (HexToAddress s) = 20"
  by (simp add: HexToAddress_def length_BytesToAddress)

lemma BytesToHash_exact: "length b = 32 \<Longrightarrow> BytesToHash b = b"
  by (simp add: BytesToHash_def HashLength_def SetBytes_array_exact)

lemma BytesToAddress_exact: "length b = 20 \<Longrightarrow> BytesToAddress b = b"
  by (simp add: BytesToAddress_def AddressLength_def SetBytes_array_exact)

lemma preamble_bytes:
  "bytes_of_string preamble =
     [0x19, 0x45, 0x74, 0x68, 0x65, 0x72, 0x65, 0x75, 0x6d, 0x20, 0x53, 0x69, 0x67, 0x6e,
      0x65, 0x64, 0x20, 0x4d, 0x65, 0x73, 0x73, 0x61, 0x67, 0x65, 0x3a, 0x0a, 0x33, 0x32]"
  by (simp add: bytes_of_string_def preamble_def byte_of_char_def)

lemma preamble_buffer_length:
  "length d = 32 \<Longrightarrow> length (concat [bytes_of_string preamble, d]) = 60"
  by (simp add: preamble_bytes)

subsection \<open>Hexadecimal encoding and decoding\<close>

lemma nibble_cases:
  assumes "n < (16::nat)"
  shows "n = 0 \<or> n = 1 \<or> n = 2 \<or> n = 3 \<or> n = 4 \<or> n = 5 \<or> n = 6 \<or> n = 7 \<or> n = 8 \<or> n = 9
     \<or> n = 10 \<or> n = 11 \<or> n = 12 \<or> n = 13 \<or> n = 14 \<or> n = 15"
  using assms by arith

lemma fromHexChar_hextable_nat:
  assumes "n < 16"
  shows "fromHexChar (hextable ! n) = Some (of_nat n)"
  using nibble_cases [OF assms]
  by (elim disjE) (simp_all add: hextable_def fromHexChar_def)

lemma lo_nibble_take_bit: "(v::byte) AND 0x0f = take_bit 4 v"
proof -
  have "(0x0f :: byte) = mask 4" by (simp add: mask_eq_exp_minus_1)
  then show ?thesis by (simp add: take_bit_eq_mask)
qed

lemma unat_hi_nibble: "unat (drop_bit 4 (v::byte)) < 16"
proof -
  have "unat v < 256" using unsigned_less [of v] by simp
  then have "unat v div 16 < 16" by arith
  then show ?thesis by (simp add: drop_bit_eq_div unat_div)
qed

lemma unat_lo_nibble: "unat ((v::byte) AND 0x0f) < 16"
proof -
  have "unat (take_bit 4 v) = unat v mod 16"
    by (simp add: take_bit_eq_mod unat_mod)
  then show ?thesis by (simp add: lo_nibble_take_bit)
qed

lemma nibbles_join: "push_bit 4 (drop_bit 4 (v::byte)) OR (v AND 0x0f) = v"
  unfolding lo_nibble_take_bit
  by (rule bit_word_eqI) (auto simp: bit_simps)


lemma fromHexChar_hi: "fromHexChar (hextable ! unat (drop_bit 4 (v::byte))) = Some (drop_bit 4 v)"
  using fromHexChar_hextable_nat [OF unat_hi_nibble, of v] by simp

lemma fromHexChar_lo: "fromHexChar (hextable ! unat ((v::byte) AND 0x0f)) = Some (v AND 0x0f)"
  using fromHexChar_hextable_nat [OF unat_lo_nibble, of v] by simp

lemma DecodeString_EncodeToString: "DecodeString (EncodeToString src) = (src, None)"
  by (induction src) (simp_all add: fromHexChar_hi fromHexChar_lo nibbles_join)

lemma length_EncodeToString: "length (EncodeToString src) = 2 * length src"
  by (induction src) simp_all


lemma set_EncodeToString: "set (EncodeToString src) \<subseteq> set hextable"
proof (induction src)
  case Nil
  then show ?case by simp
next
  case (Cons v src)
  have "length hextable = 16" by (simp add: hextable_def)
  then have "hextable ! unat (drop_bit 4 v) \<in> set hextable"
    and "hextable ! unat (v AND 0x0f) \<in> set hextable"
    using unat_hi_nibble [of v] unat_lo_nibble [of v] by simp_all
  with Cons show ?case by simp
qed

lemma fromHexChar_checksum_char:
  assumes "c \<in> set hextable"
  shows "fromHexChar (checksum_char hash i c) = fromHexChar c"
proof -
  from assms have "c \<in> {CHR ''0'', CHR ''1'', CHR ''2'', CHR ''3'', CHR ''4'', CHR ''5'', CHR ''6'',
      CHR ''7'', CHR ''8'', CHR ''9'', CHR ''a'', CHR ''b'', CHR ''c'', CHR ''d'', CHR ''e'', CHR ''f''}"
    by (simp add: hextable_def)
  then show ?thesis
    by (elim insertE emptyE)
      (simp_all add: checksum_char_def Let_def byte_of_char_def char_of_byte_def fromHexChar_def)
qed

lemma DecodeString_same_digits:
  assumes "list_all2 (\<lambda>c' c. fromHexChar c' = fromHexChar c) u' u"
    and "DecodeString u = (bs, None)"
  shows "DecodeString u' = (bs, None)"
  using assms
proof (induction u arbitrary: u' bs rule: DecodeString.induct)
  case 1
  then show ?case by simp
next
  case (2 c)
  then show ?case by (simp split: option.splits)
next
  case (3 c1 c2 s)
  from "3.prems"(1) obtain d1 d2 s' where u': "u' = d1 # d2 # s'"
    and d1: "fromHexChar d1 = fromHexChar c1" and d2: "fromHexChar d2 = fromHexChar c2"
    and rest: "list_all2 (\<lambda>c' c. fromHexChar c' = fromHexChar c) s' s"
    by (auto simp: list_all2_Cons2)
  from "3.prems"(2) obtain a b bs' where a: "fromHexChar c1 = Some a" and b: "fromHexChar c2 = Some b"
    and s: "DecodeString s = (bs', None)" and bs: "bs = (push_bit 4 a OR b) # bs'"
    by (auto split: option.splits prod.splits)
  from "3.IH" [OF a b rest s] have "DecodeString s' = (bs', None)" .
  with u' d1 d2 a b bs show ?case by simp
qed

lemma DecodeString_checksummed:
  "DecodeString (map (\<lambda>i. checksum_char hash i (EncodeToString a ! i)) [0..<length (EncodeToString a)])
     = (a, None)"
proof (rule DecodeString_same_digits [OF _ DecodeString_EncodeToString])
  show "list_all2 (\<lambda>c' c. fromHexChar c' = fromHexChar c)
     (map (\<lambda>i. checksum_char hash i (EncodeToString a ! i)) [0..<length (EncodeToString a)])
     (EncodeToString a)"
    using set_EncodeToString [of a]
    by (auto simp: list_all2_conv_all_nth intro!: fromHexChar_checksum_char)
qed

lemma Hex_prefix: "Hex keccak a = ''0x'' @ drop 2 (Hex keccak a)"
  by (simp add: Hex_def Let_def)

lemma length_Hex: "length (Hex keccak a) = 2 + 2 * length a"
  by (simp add: Hex_def Let_def length_EncodeToString)

lemma DecodeString_Hex: "DecodeString (drop 2 (Hex keccak a)) = (a, None)"
  by (simp add: Hex_def Let_def DecodeString_checksummed)

lemma FromHex_Hex: "FromHex (Hex keccak a) = a"
proof -
  have "length (drop 2 (Hex keccak a)) mod 2 = 0"
    by (simp add: length_Hex)
  moreover have "take 2 (Hex keccak a) = ''0x''" "length (Hex keccak a) > 1"
    by (simp_all add: Hex_def Let_def)
  ultimately show ?thesis
    by (simp add: FromHex_def Let_def Hex2Bytes_def DecodeString_Hex)
qed

text \<open>The loop of \<^verbatim>\<open>Address.Hex\<close> reads the digest within its 32 bytes.\<close>

lemma Hex_hash_index_in_range:
  assumes "length a = 20" and "i < length (EncodeToString a)"
  shows "i div 2 < length (Keccak256 keccak data)"
  using assms by (simp add: length_EncodeToString length_Keccak256)

lemma HexToAddress_Hex: "length a = 20 \<Longrightarrow> HexToAddress (Hex keccak a) = a"
  by (simp add: HexToAddress_def FromHex_Hex BytesToAddress_exact)

subsection \<open>Big-endian integers\<close>

lemma SetBytes_snoc: "SetBytes (buf @ [b]) = SetBytes buf * 256 + uint b"
  by (simp add: SetBytes_def)

lemma uint_byte_of_mod: "uint (of_nat (n mod 256) :: byte) = int (n mod 256)"
proof -
  have "unat (of_nat (n mod 256) :: byte) = n mod 256"
    by (simp add: unat_of_nat)
  then show ?thesis by (simp add: uint_nat)
qed

lemma SetBytes_nat_Bytes: "SetBytes (nat_Bytes n) = int n"
proof (induction n rule: nat_Bytes.induct)
  case (1 n)
  show ?case
  proof (cases "n = 0")
    case True
    then show ?thesis by (simp add: nat_Bytes.simps SetBytes_def)
  next
    case False
    have "nat_Bytes n = nat_Bytes (n div 256) @ [of_nat (n mod 256)]"
      using False by (subst nat_Bytes.simps) simp
    then have "SetBytes (nat_Bytes n) = int (n div 256) * 256 + int (n mod 256)"
      using "1.IH" [OF False] by (simp add: SetBytes_snoc uint_byte_of_mod)
    also have "\<dots> = int n"
      by (simp add: zdiv_int zmod_int)
    finally show ?thesis .
  qed
qed

lemma SetBytes_Bytes: "SetBytes (Bytes x) = \<bar>x\<bar>"
  by (simp add: Bytes_def SetBytes_nat_Bytes)

lemma length_nat_Bytes_le: "n < 256 ^ k \<Longrightarrow> length (nat_Bytes n) \<le> k"
proof (induction k arbitrary: n)
  case 0
  then show ?case by (simp add: nat_Bytes.simps)
next
  case (Suc k)
  show ?case
  proof (cases "n = 0")
    case True
    then show ?thesis by (simp add: nat_Bytes.simps)
  next
    case False
    from Suc.prems have "n div 256 < 256 ^ k"
      by (simp add: less_mult_imp_div_less)
    from Suc.IH [OF this] False show ?thesis
      by (subst nat_Bytes.simps) simp
  qed
qed

lemma length_nat_Bytes_gt: "256 ^ k \<le> n \<Longrightarrow> k < length (nat_Bytes n)"
proof (induction k arbitrary: n)
  case 0
  then have "n \<noteq> 0" by simp
  then show ?case by (subst nat_Bytes.simps) simp
next
  case (Suc k)
  have "(0::nat) < 256 ^ Suc k" by simp
  with Suc.prems have "n \<noteq> 0" by linarith
  from Suc.prems have "256 ^ k \<le> n div 256"
    by (simp add: less_eq_div_iff_mult_less_eq)
  from Suc.IH [OF this] \<open>n \<noteq> 0\<close> show ?case
    by (subst nat_Bytes.simps) simp
qed

lemma length_nat_Bytes_32:
  assumes "2 ^ 248 \<le> n" and "n < 2 ^ 256"
  shows "length (nat_Bytes n) = 32"
proof -
  have "(256::nat) ^ 31 = 2 ^ 248" "(256::nat) ^ 32 = 2 ^ 256" by simp_all
  with assms have "256 ^ 31 \<le> n" "n < 256 ^ 32" by simp_all
  from length_nat_Bytes_gt [OF this(1)] length_nat_Bytes_le [OF this(2)]
  show ?thesis by simp
qed

lemma length_nat_Bytes_short:
  assumes "n < 2 ^ 248"
  shows "length (nat_Bytes n) < 32"
proof -
  have "(256::nat) ^ 31 = 2 ^ 248" by simp
  with assms have "n < 256 ^ 31" by simp
  from length_nat_Bytes_le [OF this] show ?thesis by simp
qed

section \<open>The signing protocol\<close>

text \<open>
  Claim C1. For every 32-byte digest \<open>d\<close> and every wallet \<open>w\<close> holding a private key,
  \<open>SignHash\<close> hashes with Keccak-256 the 28 bytes of the preamble
  \<^verbatim>\<open>"\x19Ethereum Signed Message:\n32"\<close> followed by \<open>d\<close>, hands the 32-byte digest
  \<open>message\<close> and the key to the signing primitive, and, when the primitive returns its
  65 bytes \<open>sigBytes\<close>, returns with a nil error the signature whose \<open>R\<close> is bytes
  0..31, whose \<open>S\<close> is bytes 32..63 and whose \<open>V\<close> is byte 64 plus 27 (in byte
  arithmetic). That the primitive succeeds with 65 bytes on a valid scalar is its own
  contract, taken here as the hypothesis on \<open>ecdsa_sign\<close>.
\<close>

theorem SignHash_signature:
  assumes "length d = 32"
    and "PrivateKey w = Some k"
    and "message = digest_bytes (keccak (
       [0x19, 0x45, 0x74, 0x68, 0x65, 0x72, 0x65, 0x75, 0x6d, 0x20, 0x53, 0x69, 0x67, 0x6e,
        0x65, 0x64, 0x20, 0x4d, 0x65, 0x73, 0x73, 0x61, 0x67, 0x65, 0x3a, 0x0a, 0x33, 0x32] @ d))"
    and "ecdsa_sign message k = Inr sigBytes"
    and "length sigBytes = 65"
  shows "length message = 32 \<and>
         SignHash keccak ecdsa_sign w d =
           Inr (\<lparr>V = sigBytes ! 64 + 27, R = take 32 sigBytes, S = take 32 (drop 32 sigBytes)\<rparr>,
                None)"
proof -
  have msg: "Keccak256 keccak [bytes_of_string preamble, d] = message"
    using assms(3) by (simp add: Keccak256_def preamble_bytes)
  have len: "length message = 32"
    using assms(3) by (simp add: length_digest_bytes)
  have "Sign ecdsa_sign message (PrivateKey w) = Inr (Inr sigBytes)"
    using assms(2,4) len by (simp add: Sign_def)
  then have "SignHash keccak ecdsa_sign w d =
      Inr (\<lparr>V = sigBytes ! 64 + 27, R = take 32 sigBytes, S = take 32 (drop 32 sigBytes)\<rparr>, None)"
    using assms(5) by (simp add: SignHash_def msg BytesToHash_exact)
  with len show ?thesis by simp
qed

text \<open>
  The theorem at the digest of 32 bytes \<open>0xAA\<close>, with a primitive that answers
  32 bytes 1, 32 bytes 2 and the byte 255: \<open>V\<close> wraps around to 26.
\<close>

theorem SignHash_signature_witness:
  "SignHash (\<lambda>_. 0) (\<lambda>m k. Inr (replicate 32 1 @ replicate 32 2 @ [255]))
     \<lparr>ID = ''w'', Address = replicate 20 7,
      PrivateKey = Some \<lparr>PublicKey = \<lparr>X = 1, Y = 2\<rparr>, D = 5\<rparr>, Admin = False, Operator = False\<rparr>
     (replicate 32 0xAA)
   = Inr (\<lparr>V = 26, R = replicate 32 1, S = replicate 32 2\<rparr>, None)"
  using SignHash_signature [where d = "replicate 32 0xAA" and keccak = "\<lambda>_. 0"
      and ecdsa_sign = "\<lambda>m k. Inr (replicate 32 1 @ replicate 32 2 @ [255])"
      and w = "\<lparr>ID = ''w'', Address = replicate 20 7,
        PrivateKey = Some \<lparr>PublicKey = \<lparr>X = 1, Y = 2\<rparr>, D = 5\<rparr>, Admin = False, Operator = False\<rparr>"
      and k = "\<lparr>PublicKey = \<lparr>X = 1, Y = 2\<rparr>, D = 5\<rparr>"
      and sigBytes = "replicate 32 1 @ replicate 32 2 @ [255]", OF _ _ refl]
  by (simp add: nth_append)

text \<open>
  Claim C6. Whenever \<^verbatim>\<open>crypto.Sign\<close> fails, \<open>SignHash\<close> returns that error together with
  the zero-valued signature (\<open>V\<close> 0, \<open>R\<close> and \<open>S\<close> 32 zero bytes each), never a partly
  filled one.
\<close>

theorem SignHash_sign_failure:
  assumes "Sign ecdsa_sign (Keccak256 keccak [bytes_of_string preamble, h]) (PrivateKey w)
             = Inr (Inl err)"
  shows "SignHash keccak ecdsa_sign w h
           = Inr (\<lparr>V = 0, R = replicate 32 0, S = replicate 32 0\<rparr>, Some err)"
  using assms by (simp add: SignHash_def Signature_zero_def)

theorem SignHash_sign_failure_witness:
  "SignHash (\<lambda>_. 0) (\<lambda>m k. Inl (ErrExternal ''sign failed''))
     \<lparr>ID = ''w'', Address = replicate 20 7,
      PrivateKey = Some \<lparr>PublicKey = \<lparr>X = 1, Y = 2\<rparr>, D = 0\<rparr>, Admin = False, Operator = False\<rparr>
     (replicate 32 0xAA)
   = Inr (\<lparr>V = 0, R = replicate 32 0, S = replicate 32 0\<rparr>, Some (ErrExternal ''sign failed''))"
  using SignHash_sign_failure [where keccak = "\<lambda>_. 0"
      and ecdsa_sign = "\<lambda>m k. Inl (ErrExternal ''sign failed'')"
      and w = "\<lparr>ID = ''w'', Address = replicate 20 7,
        PrivateKey = Some \<lparr>PublicKey = \<lparr>X = 1, Y = 2\<rparr>, D = 0\<rparr>, Admin = False, Operator = False\<rparr>"
      and h = "replicate 32 0xAA" and err = "ErrExternal ''sign failed''"]
  by (simp add: Sign_def length_Keccak256)

text \<open>
  Claim C5. \<open>SignOrder\<close> and \<open>SignTrade\<close> are all-or-nothing. If \<open>SignHash\<close> on the
  computed hash succeeds, the order (the trade) comes back with \<open>Hash\<close> set to the
  computed hash and \<open>Signature\<close> set to the signature produced, and a nil error; if
  \<open>SignHash\<close> returns an error, that error is returned and the order (the trade) is
  unchanged.
\<close>

theorem Sign_all_or_nothing:
  "(SignHash keccak ecdsa_sign w (hashO ord) = Inr (sig, None) \<longrightarrow>
      SignOrder keccak ecdsa_sign hashO w ord
        = Inr (ord\<lparr>o_Hash := hashO ord, o_Signature := Some sig\<rparr>, None))
   \<and> (SignHash keccak ecdsa_sign w (hashO ord) = Inr (sig, Some err) \<longrightarrow>
      SignOrder keccak ecdsa_sign hashO w ord = Inr (ord, Some err))
   \<and> (SignHash keccak ecdsa_sign w (hashT t) = Inr (sig, None) \<longrightarrow>
      SignTrade keccak ecdsa_sign hashT w t
        = Inr (t\<lparr>t_Hash := hashT t, t_Signature := Some sig\<rparr>, None))
   \<and> (SignHash keccak ecdsa_sign w (hashT t) = Inr (sig, Some err) \<longrightarrow>
      SignTrade keccak ecdsa_sign hashT w t = Inr (t, Some err))"
  by (simp add: SignOrder_def SignTrade_def)

lemma SignHash_example_ok:
  "SignHash (\<lambda>_. 0) (\<lambda>m k. Inr (replicate 32 1 @ replicate 32 2 @ [1]))
     \<lparr>ID = ''w'', Address = replicate 20 7,
      PrivateKey = Some \<lparr>PublicKey = \<lparr>X = 1, Y = 2\<rparr>, D = 5\<rparr>, Admin = False, Operator = False\<rparr>
     (replicate 32 3)
   = Inr (\<lparr>V = 28, R = replicate 32 1, S = replicate 32 2\<rparr>, None)"
  by (simp add: SignHash_def Sign_def length_Keccak256 BytesToHash_exact nth_append)

lemma SignHash_example_fail:
  "SignHash (\<lambda>_. 0) (\<lambda>m k. Inl (ErrExternal ''sign failed''))
     \<lparr>ID = ''w'', Address = replicate 20 7,
      PrivateKey = Some \<lparr>PublicKey = \<lparr>X = 1, Y = 2\<rparr>, D = 5\<rparr>, Admin = False, Operator = False\<rparr>
     (replicate 32 3)
   = Inr (Signature_zero, Some (ErrExternal ''sign failed''))"
  by (simp add: SignHash_def Sign_def length_Keccak256)

text \<open>
  An order and a trade with a zero hash and no signature, signed once with a primitive
  that succeeds and once with one that fails.
\<close>

theorem Sign_all_or_nothing_witness:
  "SignOrder (\<lambda>_. 0) (\<lambda>m k. Inr (replicate 32 1 @ replicate 32 2 @ [1])) (\<lambda>_. replicate 32 3)
     \<lparr>ID = ''w'', Address = replicate 20 7,
      PrivateKey = Some \<lparr>PublicKey = \<lparr>X = 1, Y = 2\<rparr>, D = 5\<rparr>, Admin = False, Operator = False\<rparr>
     \<lparr>o_Hash = replicate 32 0, o_Signature = None\<rparr>
   = Inr (\<lparr>o_Hash = replicate 32 3,
           o_Signature = Some \<lparr>V = 28, R = replicate 32 1, S = replicate 32 2\<rparr>\<rparr>, None)
   \<and> SignOrder (\<lambda>_. 0) (\<lambda>m k. Inl (ErrExternal ''sign failed'')) (\<lambda>_. replicate 32 3)
     \<lparr>ID = ''w'', Address = replicate 20 7,
      PrivateKey = Some \<lparr>PublicKey = \<lparr>X = 1, Y = 2\<rparr>, D = 5\<rparr>, Admin = False, Operator = False\<rparr>
     \<lparr>o_Hash = replicate 32 0, o_Signature = None\<rparr>
   = Inr (\<lparr>o_Hash = replicate 32 0, o_Signature = None\<rparr>, Some (ErrExternal ''sign failed''))
   \<and> SignTrade (\<lambda>_. 0) (\<lambda>m k. Inr (replicate 32 1 @ replicate 32 2 @ [1])) (\<lambda>_. replicate 32 3)
     \<lparr>ID = ''w'', Address = replicate 20 7,
      PrivateKey = Some \<lparr>PublicKey = \<lparr>X = 1, Y = 2\<rparr>, D = 5\<rparr>, Admin = False, Operator = False\<rparr>
     \<lparr>t_Hash = replicate 32 0, t_Signature = None\<rparr>
   = Inr (\<lparr>t_Hash = replicate 32 3,
           t_Signature = Some \<lparr>V = 28, R = replicate 32 1, S = replicate 32 2\<rparr>\<rparr>, None)
   \<and> SignTrade (\<lambda>_. 0) (\<lambda>m k. Inl (ErrExternal ''sign failed'')) (\<lambda>_. replicate 32 3)
     \<lparr>ID = ''w'', Address = replicate 20 7,
      PrivateKey = Some \<lparr>PublicKey = \<lparr>X = 1, Y = 2\<rparr>, D = 5\<rparr>, Admin = False, Operator = False\<rparr>
     \<lparr>t_Hash = replicate 32 0, t_Signature = None\<rparr>
   = Inr (\<lparr>t_Hash = replicate 32 0, t_Signature = None\<rparr>, Some (ErrExternal ''sign failed''))"
  using
    Sign_all_or_nothing [where keccak = "\<lambda>_. 0"
      and ecdsa_sign = "\<lambda>m k. Inr (replicate 32 1 @ replicate 32 2 @ [1])"
      and hashO = "\<lambda>_. replicate 32 3" and hashT = "\<lambda>_. replicate 32 3"
      and w = "\<lparr>ID = ''w'', Address = replicate 20 7,
        PrivateKey = Some \<lparr>PublicKey = \<lparr>X = 1, Y = 2\<rparr>, D = 5\<rparr>, Admin = False, Operator = False\<rparr>"
      and ord = "\<lparr>o_Hash = replicate 32 0, o_Signature = None\<rparr>"
      and t = "\<lparr>t_Hash = replicate 32 0, t_Signature = None\<rparr>"
      and sig = "\<lparr>V = 28, R = replicate 32 1, S = replicate 32 2\<rparr>"]
    Sign_all_or_nothing [where keccak = "\<lambda>_. 0"
      and ecdsa_sign = "\<lambda>m k. Inl (ErrExternal ''sign failed'')"
      and hashO = "\<lambda>_. replicate 32 3" and hashT = "\<lambda>_. replicate 32 3"
      and w = "\<lparr>ID = ''w'', Address = replicate 20 7,
        PrivateKey = Some \<lparr>PublicKey = \<lparr>X = 1, Y = 2\<rparr>, D = 5\<rparr>, Admin = False, Operator = False\<rparr>"
      and ord = "\<lparr>o_Hash = replicate 32 0, o_Signature = None\<rparr>"
      and t = "\<lparr>t_Hash = replicate 32 0, t_Signature = None\<rparr>"
      and sig = "Signature_zero" and err = "ErrExternal ''sign failed''"]
  unfolding SignHash_example_ok SignHash_example_fail
  by simp

section \<open>The persistence codec\<close>

subsection \<open>Concrete evaluations\<close>

lemma Hex_example:
  "Hex (\<lambda>_. - 1) (replicate 19 0 @ [0xab]) = ''0x00000000000000000000000000000000000000AB''"
  by code_simp

lemma EncodeToString_Bytes_example: "EncodeToString (Bytes 0x1234) = ''1234''"
  by code_simp

lemma HexToAddress_example:
  "HexToAddress ''0x00000000000000000000000000000000000000AB'' = replicate 19 0 @ [0xab]"
  by code_simp

lemma HexToAddress_not_hex: "HexToAddress ''not an address'' = replicate 20 0"
  by code_simp

lemma HexToECDSA_one:
  "HexToECDSA (\<lambda>_. Some (1, 2)) ''0000000000000000000000000000000000000000000000000000000000000001''
     = Inr \<lparr>PublicKey = \<lparr>X = 1, Y = 2\<rparr>, D = 1\<rparr>"
  by code_simp

lemma HexToECDSA_zz: "HexToECDSA ScalarBaseMult ''zz'' = Inl ErrInvalidHexString"
  by (simp add: HexToECDSA_def fromHexChar_def)

lemma HexToECDSA_not_hex: "HexToECDSA ScalarBaseMult ''not-hex'' = Inl ErrInvalidHexString"
  by (simp add: HexToECDSA_def fromHexChar_def)

lemma HexToECDSA_odd: "HexToECDSA ScalarBaseMult ''abc'' = Inl ErrInvalidHexString"
  by (simp add: HexToECDSA_def fromHexChar_def)

lemma HexToECDSA_short: "HexToECDSA ScalarBaseMult ''abcd'' = Inl ErrInvalidLength"
  by (simp add: HexToECDSA_def fromHexChar_def ToECDSA_def)

lemma DecodeString_N:
  "DecodeString ''fffffffffffffffffffffffffffffffebaaedce6af48a03bbfd25e8cd0364141''
    = ([0xff, 0xff, 0xff, 0xff, 0xff, 0xff, 0xff, 0xff, 0xff, 0xff, 0xff, 0xff, 0xff, 0xff, 0xff, 0xfe,
        0xba, 0xae, 0xdc, 0xe6, 0xaf, 0x48, 0xa0, 0x3b, 0xbf, 0xd2, 0x5e, 0x8c, 0xd0, 0x36, 0x41, 0x41],
       None)"
  by code_simp

lemma HexToECDSA_N:
  "HexToECDSA ScalarBaseMult ''fffffffffffffffffffffffffffffffebaaedce6af48a03bbfd25e8cd0364141''
     = Inl ErrKeyTooLarge"
  unfolding HexToECDSA_def DecodeString_N
  by (simp add: ToECDSA_def SetBytes_def secp256k1N_def)

subsection \<open>Encoding\<close>

text \<open>
  Claim C7, amended. The claim speaks of every wallet; \<open>GetBSON\<close> reads
  \<^verbatim>\<open>w.PrivateKey.D\<close> through the pointer, so it produces a record only for a wallet
  that holds a private key. For every wallet \<open>w\<close> whose private key is present,
  \<open>GetBSON\<close> returns a record whose id is \<open>w\<close>'s, whose address is the hex encoding of
  \<open>w\<close>'s address (\<^verbatim>\<open>0x\<close> and hex digits that decode to the bytes of the address), whose
  private key is the hex encoding of the big-endian bytes of the scalar \<open>D\<close>, and whose
  admin flag is \<open>w\<close>'s; the operator flag of the record is false whatever \<open>w\<close>'s
  operator flag is.
\<close>

theorem GetBSON_record:
  assumes "PrivateKey w = Some k"
  shows "\<exists>record. GetBSON keccak w = Inr (record, None)
           \<and> r_ID record = ID w
           \<and> take 2 (r_Address record) = ''0x''
           \<and> DecodeString (drop 2 (r_Address record)) = (Address w, None)
           \<and> r_Address record = Hex keccak (Address w)
           \<and> DecodeString (r_PrivateKey record) = (Bytes (D k), None)
           \<and> SetBytes (Bytes (D k)) = \<bar>D k\<bar>
           \<and> r_PrivateKey record = EncodeToString (Bytes (D k))
           \<and> r_Admin record = Admin w
           \<and> r_Operator record = False
           \<and> GetBSON keccak (w\<lparr>Operator := b\<rparr>) = GetBSON keccak w"
proof -
  have "take 2 (Hex keccak (Address w)) = ''0x''"
    by (simp add: Hex_def Let_def)
  then show ?thesis
    using assms
    by (simp add: GetBSON_def DecodeString_Hex DecodeString_EncodeToString SetBytes_Bytes)
qed

theorem GetBSON_record_witness:
  "\<exists>record. GetBSON (\<lambda>_. - 1)
       \<lparr>ID = ''id1'', Address = replicate 19 0 @ [0xab],
        PrivateKey = Some \<lparr>PublicKey = \<lparr>X = 1, Y = 2\<rparr>, D = 0x1234\<rparr>,
        Admin = True, Operator = True\<rparr> = Inr (record, None)
     \<and> r_ID record = ''id1''
     \<and> r_Address record = ''0x00000000000000000000000000000000000000AB''
     \<and> r_PrivateKey record = ''1234''
     \<and> r_Admin record = True
     \<and> r_Operator record = False"
  using GetBSON_record [where keccak = "\<lambda>_. - 1" and k = "\<lparr>PublicKey = \<lparr>X = 1, Y = 2\<rparr>, D = 0x1234\<rparr>"
      and w = "\<lparr>ID = ''id1'', Address = replicate 19 0 @ [0xab],
        PrivateKey = Some \<lparr>PublicKey = \<lparr>X = 1, Y = 2\<rparr>, D = 0x1234\<rparr>,
        Admin = True, Operator = True\<rparr>"]
  by (auto simp: Hex_example EncodeToString_Bytes_example)

text \<open>
  The claim as stated, for every wallet, fails on a wallet whose private key is nil:
  \<open>GetBSON\<close> panics and produces no record. Such a wallet is what \<open>SetBSON\<close> leaves
  behind when the private key of the stored record does not parse.
\<close>

theorem GetBSON_record_counterexample:
  "GetBSON (\<lambda>_. 0)
     \<lparr>ID = ''new'', Address = replicate 19 0 @ [0xab], PrivateKey = None,
      Admin = True, Operator = True\<rparr> = Inl NilPointerDereference
   \<and> \<not> (\<exists>record e. GetBSON (\<lambda>_. 0)
         \<lparr>ID = ''new'', Address = replicate 19 0 @ [0xab], PrivateKey = None,
          Admin = True, Operator = True\<rparr> = Inr (record, e))
   \<and> SetBSON (\<lambda>_. Inr \<lparr>r_ID = ''new'', r_Address = ''0x00000000000000000000000000000000000000AB'',
         r_PrivateKey = ''zz'', r_Admin = False, r_Operator = False\<rparr>) (\<lambda>_. Some (1, 2)) ()
       \<lparr>ID = ''old'', Address = replicate 20 7,
        PrivateKey = Some \<lparr>PublicKey = \<lparr>X = 1, Y = 2\<rparr>, D = 5\<rparr>, Admin = True, Operator = True\<rparr>
     = (\<lparr>ID = ''new'', Address = replicate 19 0 @ [0xab], PrivateKey = None,
         Admin = True, Operator = True\<rparr>, Some ErrInvalidHexString)"
  by (simp add: GetBSON_def SetBSON_def Let_def go_pair_def HexToECDSA_zz HexToAddress_example)

text \<open>
  Claim C10. For every wallet \<open>w\<close> holding a private key (and a 20-byte address, as the
  type has it), \<open>GetBSON\<close> never fails: it returns a record with a nil error, never a
  record with an error, and it does not panic.
\<close>

theorem GetBSON_never_fails:
  assumes "PrivateKey w = Some k" and "length (Address w) = 20"
  shows "(\<exists>record. GetBSON keccak w = Inr (record, None))
         \<and> GetBSON keccak w \<noteq> Inr (record', Some err)
         \<and> GetBSON keccak w \<noteq> Inl p"
  using assms by (simp add: GetBSON_def)

theorem GetBSON_never_fails_witness:
  "(\<exists>record. GetBSON (\<lambda>_. 0)
       \<lparr>ID = [], Address = replicate 20 0,
        PrivateKey = Some \<lparr>PublicKey = \<lparr>X = 0, Y = 0\<rparr>, D = 0\<rparr>,
        Admin = False, Operator = True\<rparr> = Inr (record, None))
   \<and> GetBSON (\<lambda>_. 0)
       \<lparr>ID = [], Address = replicate 20 0,
        PrivateKey = Some \<lparr>PublicKey = \<lparr>X = 0, Y = 0\<rparr>, D = 0\<rparr>,
        Admin = False, Operator = True\<rparr> \<noteq> Inl NilPointerDereference"
  using GetBSON_never_fails [where keccak = "\<lambda>_. 0" and k = "\<lparr>PublicKey = \<lparr>X = 0, Y = 0\<rparr>, D = 0\<rparr>"
      and w = "\<lparr>ID = [], Address = replicate 20 0,
        PrivateKey = Some \<lparr>PublicKey = \<lparr>X = 0, Y = 0\<rparr>, D = 0\<rparr>,
        Admin = False, Operator = True\<rparr>" and p = NilPointerDereference]
  by simp

subsection \<open>Decoding\<close>

text \<open>
  Claim C8. \<open>SetBSON\<close> is not atomic on error: when the unmarshalling succeeds and the
  private key of the record fails to parse, \<open>SetBSON\<close> returns the error of the parse and
  the wallet has by then the id and the address of the record, while its admin and
  operator flags are the ones it had. (Its private key is then nil.)
\<close>

theorem SetBSON_not_atomic:
  assumes "Unmarshal raw = Inr decoded"
    and "HexToECDSA ScalarBaseMult (r_PrivateKey decoded) = Inl err"
  shows "\<exists>w'. SetBSON Unmarshal ScalarBaseMult raw w = (w', Some err)
           \<and> ID w' = r_ID decoded
           \<and> Address w' = HexToAddress (r_Address decoded)
           \<and> Admin w' = Admin w
           \<and> Operator w' = Operator w
           \<and> PrivateKey w' = None"
  using assms by (simp add: SetBSON_def Let_def go_pair_def)

theorem SetBSON_not_atomic_witness:
  "SetBSON (\<lambda>_. Inr \<lparr>r_ID = ''new'', r_Address = ''0x00000000000000000000000000000000000000AB'',
        r_PrivateKey = ''zz'', r_Admin = False, r_Operator = False\<rparr>) (\<lambda>_. Some (1, 2)) ()
     \<lparr>ID = ''old'', Address = replicate 20 7,
      PrivateKey = Some \<lparr>PublicKey = \<lparr>X = 1, Y = 2\<rparr>, D = 5\<rparr>, Admin = True, Operator = True\<rparr>
   = (\<lparr>ID = ''new'', Address = replicate 19 0 @ [0xab], PrivateKey = None,
       Admin = True, Operator = True\<rparr>, Some ErrInvalidHexString)"
  using SetBSON_not_atomic [where raw = "()" and ScalarBaseMult = "\<lambda>_. Some (1, 2)"
      and Unmarshal = "\<lambda>_. Inr \<lparr>r_ID = ''new'',
        r_Address = ''0x00000000000000000000000000000000000000AB'',
        r_PrivateKey = ''zz'', r_Admin = False, r_Operator = False\<rparr>"
      and decoded = "\<lparr>r_ID = ''new'', r_Address = ''0x00000000000000000000000000000000000000AB'',
        r_PrivateKey = ''zz'', r_Admin = False, r_Operator = False\<rparr>"
      and err = ErrInvalidHexString
      and w = "\<lparr>ID = ''old'', Address = replicate 20 7,
      PrivateKey = Some \<lparr>PublicKey = \<lparr>X = 1, Y = 2\<rparr>, D = 5\<rparr>, Admin = True, Operator = True\<rparr>"]
  by (auto simp: HexToECDSA_zz HexToAddress_example)

text \<open>
  Claim C9. \<open>SetBSON\<close> never fails because of the address. Its error is the error of the
  unmarshalling if there is one, and otherwise the error of the parse of the private
  key if there is one, and otherwise nil; whatever string \<open>a\<close> the record has as its
  address, the error is decided by the private key alone and the wallet gets the
  20-byte address \<open>HexToAddress a\<close>.
\<close>

theorem SetBSON_address_never_fails:
  "snd (SetBSON Unmarshal ScalarBaseMult raw w)
     = (case Unmarshal raw of
          Inl err \<Rightarrow> Some err
        | Inr decoded \<Rightarrow>
            (case HexToECDSA ScalarBaseMult (r_PrivateKey decoded) of
               Inl err \<Rightarrow> Some err
             | Inr k \<Rightarrow> None))
   \<and> (Unmarshal raw = Inr (decoded\<lparr>r_Address := a\<rparr>) \<longrightarrow>
        snd (SetBSON Unmarshal ScalarBaseMult raw w)
          = (case HexToECDSA ScalarBaseMult (r_PrivateKey decoded) of
               Inl err \<Rightarrow> Some err
             | Inr k \<Rightarrow> None)
        \<and> Address (fst (SetBSON Unmarshal ScalarBaseMult raw w)) = HexToAddress a
        \<and> length (Address (fst (SetBSON Unmarshal ScalarBaseMult raw w))) = 20)"
  by (simp add: SetBSON_def Let_def go_pair_def length_HexToAddress split: sum.splits)

text \<open>A record whose address is no hex string at all: no error, the zero address.\<close>

theorem SetBSON_address_never_fails_witness:
  "snd (SetBSON (\<lambda>_. Inr \<lparr>r_ID = ''new'', r_Address = ''not an address'',
        r_PrivateKey = ''0000000000000000000000000000000000000000000000000000000000000001'',
        r_Admin = False, r_Operator = False\<rparr>) (\<lambda>_. Some (1, 2)) ()
     \<lparr>ID = ''old'', Address = replicate 20 7, PrivateKey = None, Admin = True, Operator = True\<rparr>)
     = None
   \<and> Address (fst (SetBSON (\<lambda>_. Inr \<lparr>r_ID = ''new'', r_Address = ''not an address'',
        r_PrivateKey = ''0000000000000000000000000000000000000000000000000000000000000001'',
        r_Admin = False, r_Operator = False\<rparr>) (\<lambda>_. Some (1, 2)) ()
     \<lparr>ID = ''old'', Address = replicate 20 7, PrivateKey = None, Admin = True, Operator = True\<rparr>))
     = replicate 20 0"
  using SetBSON_address_never_fails [where raw = "()" and ScalarBaseMult = "\<lambda>_. Some (1, 2)"
      and Unmarshal = "\<lambda>_. Inr \<lparr>r_ID = ''new'', r_Address = ''not an address'',
        r_PrivateKey = ''0000000000000000000000000000000000000000000000000000000000000001'',
        r_Admin = False, r_Operator = False\<rparr>"
      and decoded = "\<lparr>r_ID = ''new'', r_Address = ''not an address'',
        r_PrivateKey = ''0000000000000000000000000000000000000000000000000000000000000001'',
        r_Admin = False, r_Operator = False\<rparr>"
      and a = "''not an address''"
      and w = "\<lparr>ID = ''old'', Address = replicate 20 7, PrivateKey = None,
        Admin = True, Operator = True\<rparr>"]
  by (simp add: HexToECDSA_one HexToAddress_not_hex)

section \<open>Key lifecycle\<close>

lemma NewWalletFromPrivateKey_error:
  assumes "HexToECDSA ScalarBaseMult key = Inl err"
  shows "NewWalletFromPrivateKey ScalarBaseMult PubkeyToAddress key = Inl NilPointerDereference"
  using assms by (simp add: NewWalletFromPrivateKey_def go_pair_def)

lemma NewWalletFromPrivateKey_ok:
  assumes "HexToECDSA ScalarBaseMult key = Inr k"
  shows "NewWalletFromPrivateKey ScalarBaseMult PubkeyToAddress key
           = Inr \<lparr>ID = [], Address = PubkeyToAddress (PublicKey k), PrivateKey = Some k,
                  Admin = False, Operator = False\<rparr>"
  using assms by (simp add: NewWalletFromPrivateKey_def go_pair_def)

text \<open>
  Claim C3. The claim is that \<open>NewWalletFromPrivateKey\<close> fails with an error on a
  malformed or out-of-range key. The function has no error result: it logs the error
  of \<^verbatim>\<open>HexToECDSA\<close>, goes on and reads \<^verbatim>\<open>privateKey.PublicKey\<close> through the nil pointer.
  On a string that is not hex, on a hex string of odd length, on one of the wrong
  length and on the group order itself, the call panics.
\<close>

theorem NewWalletFromPrivateKey_malformed_panics:
  "NewWalletFromPrivateKey ScalarBaseMult PubkeyToAddress ''not-hex'' = Inl NilPointerDereference
   \<and> NewWalletFromPrivateKey ScalarBaseMult PubkeyToAddress ''abc'' = Inl NilPointerDereference
   \<and> NewWalletFromPrivateKey ScalarBaseMult PubkeyToAddress ''abcd'' = Inl NilPointerDereference
   \<and> NewWalletFromPrivateKey ScalarBaseMult PubkeyToAddress
        ''fffffffffffffffffffffffffffffffebaaedce6af48a03bbfd25e8cd0364141''
      = Inl NilPointerDereference"
  by (simp add: NewWalletFromPrivateKey_error [OF HexToECDSA_not_hex]
      NewWalletFromPrivateKey_error [OF HexToECDSA_odd]
      NewWalletFromPrivateKey_error [OF HexToECDSA_short]
      NewWalletFromPrivateKey_error [OF HexToECDSA_N])

text \<open>
  Claim C4. The claim is that \<open>NewWallet\<close> propagates a failure of the key generation.
  The function discards the error of \<^verbatim>\<open>GenerateKey\<close> and has no error result: when the
  generation fails, the key is nil and reading \<^verbatim>\<open>privateKey.PublicKey\<close> panics.
\<close>

theorem NewWallet_generation_failure_panics:
  "NewWallet (None, Some err) PubkeyToAddress = Inl NilPointerDereference"
  by (simp add: NewWallet_def)

section \<open>Round trip through the codec\<close>

text \<open>
  \<^verbatim>\<open>HexToECDSA\<close> wants exactly 32 bytes, and \<^verbatim>\<open>D.Bytes()\<close> has no leading zero byte:
  the hex string that \<open>GetBSON\<close> writes parses back exactly when the scalar has 32
  significant bytes.
\<close>

lemma ToECDSA_Bytes:
  assumes "2 ^ 248 \<le> d" and "d < secp256k1N"
    and "ScalarBaseMult (Bytes d) = Some (x, y)"
  shows "ToECDSA ScalarBaseMult (Bytes d) = Inr \<lparr>PublicKey = \<lparr>X = x, Y = y\<rparr>, D = d\<rparr>"
proof -
  from assms(1) have pos: "0 < d" by simp
  have "secp256k1N < 2 ^ 256" by (simp add: secp256k1N_def)
  with assms(2) have "d < 2 ^ 256" by simp
  with pos have "nat \<bar>d\<bar> < 2 ^ 256" by (simp add: nat_less_iff)
  moreover from assms(1) pos have "2 ^ 248 \<le> nat \<bar>d\<bar>" by (simp add: le_nat_iff)
  ultimately have len: "length (Bytes d) = 32"
    by (simp add: Bytes_def length_nat_Bytes_32)
  have val: "SetBytes (Bytes d) = d"
    using pos by (simp add: SetBytes_Bytes)
  show ?thesis
    using assms(2,3) pos by (simp add: ToECDSA_def len val)
qed

lemma HexToECDSA_short_scalar:
  assumes "\<bar>d\<bar> < 2 ^ 248"
  shows "HexToECDSA ScalarBaseMult (EncodeToString (Bytes d)) = Inl ErrInvalidLength"
proof -
  from assms have "nat \<bar>d\<bar> < 2 ^ 248" by (simp add: nat_less_iff)
  then have "length (Bytes d) < 32"
    by (simp add: Bytes_def length_nat_Bytes_short)
  then show ?thesis
    by (simp add: HexToECDSA_def DecodeString_EncodeToString ToECDSA_def)
qed

lemma roundtrip_large_scalar:
  assumes "PrivateKey w = Some k"
    and "2 ^ 248 \<le> D k" and "D k < secp256k1N"
    and "ScalarBaseMult (Bytes (D k)) = Some (X (PublicKey k), Y (PublicKey k))"
    and "length (Address w) = 20"
    and "GetBSON keccak w = Inr (stored, e)"
    and "Unmarshal raw = Inr stored"
  shows "SetBSON Unmarshal ScalarBaseMult raw w0
           = (w0\<lparr>ID := ID w, Address := Address w, PrivateKey := PrivateKey w,
                 Admin := Admin w, Operator := False\<rparr>, None)"
proof -
  from assms(1,6) have rec_eq: "stored = \<lparr>r_ID = ID w, r_Address = Hex keccak (Address w),
      r_PrivateKey = EncodeToString (Bytes (D k)), r_Admin = Admin w, r_Operator = False\<rparr>"
    by (simp add: GetBSON_def)
  have "ToECDSA ScalarBaseMult (Bytes (D k))
      = Inr \<lparr>PublicKey = \<lparr>X = X (PublicKey k), Y = Y (PublicKey k)\<rparr>, D = D k\<rparr>"
    using assms(2,3,4) by (rule ToECDSA_Bytes)
  then have key: "HexToECDSA ScalarBaseMult (r_PrivateKey stored) = Inr k"
    by (simp add: rec_eq HexToECDSA_def DecodeString_EncodeToString)
  have addr: "HexToAddress (r_Address stored) = Address w"
    by (simp add: rec_eq HexToAddress_Hex [OF assms(5)])
  show ?thesis
    using assms(1,7) key addr by (simp add: SetBSON_def Let_def go_pair_def rec_eq)
qed

lemma roundtrip_short_scalar:
  assumes "PrivateKey w = Some k"
    and "\<bar>D k\<bar> < 2 ^ 248"
    and "GetBSON keccak w = Inr (stored, e)"
    and "Unmarshal raw = Inr stored"
  shows "snd (SetBSON Unmarshal ScalarBaseMult raw w0) = Some ErrInvalidLength
         \<and> PrivateKey (fst (SetBSON Unmarshal ScalarBaseMult raw w0)) = None"
proof -
  from assms(1,3) have "r_PrivateKey stored = EncodeToString (Bytes (D k))"
    by (auto simp: GetBSON_def)
  then have "HexToECDSA ScalarBaseMult (r_PrivateKey stored) = Inl ErrInvalidLength"
    by (simp add: HexToECDSA_short_scalar [OF assms(2)])
  then show ?thesis
    using assms(4) by (simp add: SetBSON_def Let_def go_pair_def)
qed

text \<open>The round trip of a wallet whose scalar is \<open>2 ^ 248 + 5\<close>.\<close>

lemma roundtrip_large_scalar_example:
  "SetBSON (\<lambda>_. Inr \<lparr>r_ID = ''id1'', r_Address = Hex (\<lambda>_. - 1) (replicate 19 0 @ [0xab]),
       r_PrivateKey = EncodeToString (Bytes (2 ^ 248 + 5)), r_Admin = True, r_Operator = False\<rparr>)
     (\<lambda>_. Some (1, 2)) ()
     \<lparr>ID = [], Address = replicate 20 0, PrivateKey = None, Admin = False, Operator = True\<rparr>
   = (\<lparr>ID = ''id1'', Address = replicate 19 0 @ [0xab],
       PrivateKey = Some \<lparr>PublicKey = \<lparr>X = 1, Y = 2\<rparr>, D = 2 ^ 248 + 5\<rparr>,
       Admin = True, Operator = False\<rparr>, None)"
  using roundtrip_large_scalar [where keccak = "\<lambda>_. - 1" and ScalarBaseMult = "\<lambda>_. Some (1, 2)"
      and raw = "()" and e = None
      and k = "\<lparr>PublicKey = \<lparr>X = 1, Y = 2\<rparr>, D = 2 ^ 248 + 5\<rparr>"
      and w = "\<lparr>ID = ''id1'', Address = replicate 19 0 @ [0xab],
        PrivateKey = Some \<lparr>PublicKey = \<lparr>X = 1, Y = 2\<rparr>, D = 2 ^ 248 + 5\<rparr>,
        Admin = True, Operator = True\<rparr>"
      and w0 = "\<lparr>ID = [], Address = replicate 20 0, PrivateKey = None, Admin = False,
        Operator = True\<rparr>"
      and Unmarshal = "\<lambda>_. Inr \<lparr>r_ID = ''id1'',
        r_Address = Hex (\<lambda>_. - 1) (replicate 19 0 @ [0xab]),
        r_PrivateKey = EncodeToString (Bytes (2 ^ 248 + 5)), r_Admin = True, r_Operator = False\<rparr>"
      and stored = "\<lparr>r_ID = ''id1'',
        r_Address = Hex (\<lambda>_. - 1) (replicate 19 0 @ [0xab]),
        r_PrivateKey = EncodeToString (Bytes (2 ^ 248 + 5)), r_Admin = True, r_Operator = False\<rparr>"]
  by (simp add: GetBSON_def secp256k1N_def)

lemma Bytes_one: "Bytes 1 = [1]"
  by (simp add: Bytes_def nat_Bytes.simps)

text \<open>
  Claim C2. The claim is that decoding the record produced by encoding a wallet with a
  valid private scalar succeeds and gives back its id, address, private key and admin
  flag. The scalar 1 is valid (\<open>0 < 1 < secp256k1N\<close>); \<open>GetBSON\<close> writes it as
  \<^verbatim>\<open>"01"\<close>, and \<open>SetBSON\<close> on that record returns the error "invalid length, need 256
  bits" and leaves the wallet without a private key. The same happens for every scalar
  below \<open>2 ^ 248\<close> (\<open>roundtrip_short_scalar\<close>); from \<open>2 ^ 248\<close> on the round trip is
  as claimed (\<open>roundtrip_large_scalar\<close>).
\<close>

theorem roundtrip_fails_scalar_one:
  "GetBSON keccak \<lparr>ID = i, Address = a, PrivateKey = Some \<lparr>PublicKey = pk, D = 1\<rparr>,
       Admin = ad, Operator = op\<rparr>
     = Inr (\<lparr>r_ID = i, r_Address = Hex keccak a, r_PrivateKey = ''01'', r_Admin = ad,
             r_Operator = False\<rparr>, None)
   \<and> SetBSON (\<lambda>raw. Inr \<lparr>r_ID = i, r_Address = Hex keccak a, r_PrivateKey = ''01'', r_Admin = ad,
             r_Operator = False\<rparr>) ScalarBaseMult raw w0
     = (w0\<lparr>ID := i, Address := HexToAddress (Hex keccak a), PrivateKey := None\<rparr>,
        Some ErrInvalidLength)"
proof -
  have "HexToECDSA ScalarBaseMult ''01'' = Inl ErrInvalidLength"
    by (simp add: HexToECDSA_def fromHexChar_def ToECDSA_def)
  then show ?thesis
    by (simp add: GetBSON_def SetBSON_def Let_def go_pair_def Bytes_one hextable_def)
qed

end
